theory Spec2Isabelle
  imports Main "HOL-Library.Sublist"
begin

section \<open>Enroll-Ease: a document-grounded question-answering chatbot\<close>

text \<open>
  The program is one Streamlit script, \<^verbatim>\<open>main.py\<close>. It keeps three entries in the
  session state (\<^verbatim>\<open>pdf_path\<close>, \<^verbatim>\<open>db\<close>, \<^verbatim>\<open>chat_history\<close>) and
  delegates every stage of the retrieval pipeline to LangChain, FAISS, Ollama and Groq.
  Those libraries are not part of the program: they are a parameter of the model, a record
  of functions, and every call of one is written to a log in the order the script makes it.
  A call of a library may raise; the exception is a value, and the session state at the
  moment it is raised is the state that persists.
\<close>

subsection \<open>Values, exceptions and the libraries\<close>

datatype exn = KeyError string | AttributeError string | LibraryError string

text \<open>A LangChain \<^verbatim>\<open>Document\<close>.\<close>

record document =
  page_content :: string
  metadata :: "(string \<times> string) list"

text \<open>
  The calls the script makes into the libraries, with the arguments that the script fixes
  itself (paths, sizes, the model name, the template, the dictionary handed to the chain).
\<close>

datatype api_call =
    Call_PyPDFLoader_load string
  | Call_split_documents nat nat
  | Call_OllamaEmbeddings
  | Call_FAISS_from_documents
  | Call_ChatGroq "string option" string
  | Call_from_template string
  | Call_create_stuff_documents_chain
  | Call_as_retriever
  | Call_create_retrieval_chain
  | Call_invoke "(string \<times> string) list"

text \<open>
  The libraries. \<open>'db\<close> is the FAISS vector store, \<open>'o\<close> the other library objects
  (embedding client, chat model, prompt, chains, retriever), \<open>'v\<close> the values of the
  dictionary a chain returns. \<open>RecursiveCharacterTextSplitter\<close> takes
  \<^verbatim>\<open>chunk_size\<close> and \<^verbatim>\<open>chunk_overlap\<close> first. \<open>py_str\<close> is the
  conversion an f-string applies to an interpolated value.
\<close>

record ('db, 'o, 'v) libraries =
  os_getenv :: "string \<Rightarrow> string option"
  PyPDFLoader_load :: "string \<Rightarrow> exn + document list"
  RecursiveCharacterTextSplitter :: "nat \<Rightarrow> nat \<Rightarrow> document list \<Rightarrow> exn + document list"
  OllamaEmbeddings :: "exn + 'o"
  FAISS_from_documents :: "document list \<Rightarrow> 'o \<Rightarrow> exn + 'db"
  ChatGroq :: "string option \<Rightarrow> string \<Rightarrow> exn + 'o"
  from_template :: "string \<Rightarrow> exn + 'o"
  create_stuff_documents_chain :: "'o \<Rightarrow> 'o \<Rightarrow> exn + 'o"
  as_retriever :: "'db \<Rightarrow> exn + 'o"
  create_retrieval_chain :: "'o \<Rightarrow> 'o \<Rightarrow> exn + 'o"
  invoke :: "'o \<Rightarrow> (string \<times> string) list \<Rightarrow> exn + (string \<rightharpoonup> 'v)"
  py_str :: "'v \<Rightarrow> string"

text \<open>
  A computation that calls libraries: the calls it made, in order, and the exception it
  raised or the value it returned.
\<close>

type_synonym 'a io = "api_call list \<times> (exn + 'a)"

definition call :: "api_call \<Rightarrow> exn + 'a \<Rightarrow> 'a io" where
  "call c r = ([c], r)"

definition return_io :: "'a \<Rightarrow> 'a io" where
  "return_io x = ([], Inr x)"

definition raise_io :: "exn \<Rightarrow> 'a io" where
  "raise_io e = ([], Inl e)"

definition bind_io :: "'a io \<Rightarrow> ('a \<Rightarrow> 'b io) \<Rightarrow> 'b io" where
  "bind_io m f =
     (case m of
        (cs, Inl e) \<Rightarrow> (cs, Inl e)
      | (cs, Inr x) \<Rightarrow> (case f x of (cs', r) \<Rightarrow> (cs @ cs', r)))"

subsection \<open>The pipeline functions of \<^verbatim>\<open>main.py\<close>\<close>

definition groq_api_key :: "('db, 'o, 'v) libraries \<Rightarrow> string option" where
  "groq_api_key L = os_getenv L ''GROQ_API_KEY''"

definition load_pdf :: "('db, 'o, 'v) libraries \<Rightarrow> string \<Rightarrow> document list io" where
  "load_pdf L pdf_path = call (Call_PyPDFLoader_load pdf_path) (PyPDFLoader_load L pdf_path)"

definition split_documents :: "('db, 'o, 'v) libraries \<Rightarrow> document list \<Rightarrow> document list io" where
  "split_documents L docs =
     call (Call_split_documents 1000 200) (RecursiveCharacterTextSplitter L 1000 200 docs)"

definition initialize_embeddings :: "('db, 'o, 'v) libraries \<Rightarrow> document list \<Rightarrow> 'db io" where
  "initialize_embeddings L documents =
     bind_io (call Call_OllamaEmbeddings (OllamaEmbeddings L)) (\<lambda>embeddings.
       call Call_FAISS_from_documents (FAISS_from_documents L documents embeddings))"

definition initialize_llm :: "('db, 'o, 'v) libraries \<Rightarrow> 'o io" where
  "initialize_llm L =
     call (Call_ChatGroq (groq_api_key L) ''mixtral-8x7b-32768'')
       (ChatGroq L (groq_api_key L) ''mixtral-8x7b-32768'')"

definition prompt_template :: string where
  \<open>prompt_template =
     ''\<newline>'' @
     ''    You are an assistant who provides answers to the questions of the user. \<newline>'' @
     ''    Get the information from the pdf and provide correct and precise answers. \<newline>'' @
     ''    If you don't know the answer then say "I am sorry you might have to contact the college for more info on this XXXXX"\<newline>'' @
     ''    <context>\<newline>'' @
     ''    {context}\<newline>'' @
     ''    </context>\<newline>'' @
     ''    Question: {input}\<newline>'' @
     ''    ''\<close>

definition create_prompt :: "('db, 'o, 'v) libraries \<Rightarrow> 'o io" where
  "create_prompt L = call (Call_from_template prompt_template) (from_template L prompt_template)"

definition create_chains :: "('db, 'o, 'v) libraries \<Rightarrow> 'o \<Rightarrow> 'o \<Rightarrow> 'db \<Rightarrow> 'o io" where
  "create_chains L llm prompt db =
     bind_io (call Call_create_stuff_documents_chain (create_stuff_documents_chain L llm prompt))
       (\<lambda>doc_chain.
     bind_io (call Call_as_retriever (as_retriever L db)) (\<lambda>retriever.
       call Call_create_retrieval_chain (create_retrieval_chain L retriever doc_chain)))"

definition process_question :: "('db, 'o, 'v) libraries \<Rightarrow> 'o \<Rightarrow> string \<Rightarrow> 'v io" where
  "process_question L retrieval_chain question =
     bind_io (call (Call_invoke [(''input'', question)])
                (invoke L retrieval_chain [(''input'', question)]))
       (\<lambda>response.
          case response ''answer'' of
            None \<Rightarrow> raise_io (KeyError ''answer'')
          | Some a \<Rightarrow> return_io a)"

definition preload_data :: "('db, 'o, 'v) libraries \<Rightarrow> string \<Rightarrow> 'db io" where
  "preload_data L pdf_path =
     bind_io (load_pdf L pdf_path) (\<lambda>docs.
     bind_io (split_documents L docs) (\<lambda>documents.
       initialize_embeddings L documents))"

subsection \<open>Session state, widgets and the rendered page\<close>

text \<open>
  One entry of the chat history: the dictionary with the keys \<^verbatim>\<open>question\<close> and
  \<^verbatim>\<open>answer\<close>.
\<close>

record 'v chat =
  question :: string
  answer :: 'v

text \<open>
  The entries of \<^verbatim>\<open>st.session_state\<close> that the script writes. An entry that is not in
  the session state is \<open>None\<close>; \<open>pdf_path\<close> can also be present with the Python value
  \<^verbatim>\<open>None\<close>, which is \<open>Some None\<close>. The entry that Streamlit keeps for the text
  input is the widget value below.
\<close>

record ('db, 'v) session =
  pdf_path :: "string option option"
  db :: "'db option"
  chat_history :: "'v chat list option"

definition empty_session :: "('db, 'v) session" where
  "empty_session = \<lparr>pdf_path = None, db = None, chat_history = None\<rparr>"

text \<open>What the widgets return in one run of the script.\<close>

record widgets =
  btn_about_college :: bool
  btn_admission_process :: bool
  btn_cut_off :: bool
  btn_seat_allotment :: bool
  btn_fees_structure :: bool
  btn_send :: bool
  text_input :: string

text \<open>The elements the script puts on the page, in order.\<close>

datatype element =
    Title string
  | Markdown string
  | Sidebar_Title string
  | Sidebar_Markdown string
  | Sidebar_Button string
  | Text_Input string
  | Button string
  | Warning string

text \<open>
  How a run of the script ends: it reaches the end, it stops at
  \<^verbatim>\<open>st.experimental_rerun()\<close>, or an exception leaves it.
\<close>

datatype stop = Finished | Rerun | Raised exn

record ('db, 'v) outcome =
  stop :: stop
  state :: "('db, 'v) session"
  page :: "element list"
  api_log :: "api_call list"

subsection \<open>The script \<^verbatim>\<open>run_streamlit\<close>\<close>

definition custom_styling :: string where
  \<open>custom_styling =
     ''\<newline>'' @
     ''        <style>\<newline>'' @
     ''            .sidebar .sidebar-content {\<newline>'' @
     ''                padding: 20px;\<newline>'' @
     ''                background-color: #f8f9fa;\<newline>'' @
     ''            }\<newline>'' @
     ''            .sidebar .sidebar-content h3 {\<newline>'' @
     ''                margin-top: 0;\<newline>'' @
     ''            }\<newline>'' @
     ''            .chat-box {\<newline>'' @
     ''                margin-bottom: 10px;\<newline>'' @
     ''                padding: 10px;\<newline>'' @
     ''                border-radius: 5px;\<newline>'' @
     ''                background-color: #f1f1f1;\<newline>'' @
     ''            }\<newline>'' @
     ''            .user-message {\<newline>'' @
     ''                font-weight: bold;\<newline>'' @
     ''                color: #000000;\<newline>'' @
     ''                margin-bottom: 5px\<newline>'' @
     ''            }\<newline>'' @
     ''            .bot-message {\<newline>'' @
     ''                margin-top: 5px;\<newline>'' @
     ''                color: #0a0a0a;\<newline>'' @
     ''            }\<newline>'' @
     ''            .button-container button {\<newline>'' @
     ''                display: block;\<newline>'' @
     ''                width: 100%;\<newline>'' @
     ''                margin-bottom: 10px;\<newline>'' @
     ''                padding: 10px;\<newline>'' @
     ''                text-align: center;\<newline>'' @
     ''                border: none;\<newline>'' @
     ''                background-color: #007bff;\<newline>'' @
     ''                color: white;\<newline>'' @
     ''                font-size: 16px;\<newline>'' @
     ''                cursor: pointer;\<newline>'' @
     ''                border-radius: 5px;\<newline>'' @
     ''            }\<newline>'' @
     ''            .button-container button:hover {\<newline>'' @
     ''                background-color: #0056b3;\<newline>'' @
     ''            }\<newline>'' @
     ''        </style>\<newline>'' @
     ''    ''\<close>

definition pdf_paths :: "(string \<times> string) list" where
  "pdf_paths =
     [(''college_info'', ''about_college.pdf''),
      (''seatsmatrix'', ''seatsmatrix.pdf''),
      (''admission_process'', ''admissionprocess.pdf''),
      (''Cutoff'', ''cuttoffs.pdf''),
      (''fees'', ''feesstructure.pdf'')]"

text \<open>
  The body of a document button, with the key it looks up in \<open>pdf_paths\<close>: store the
  path, pop \<^verbatim>\<open>db\<close>, build the index for the stored path, store it, rerun.
\<close>

definition select_document ::
  "('db, 'o, 'v) libraries \<Rightarrow> string \<Rightarrow> ('db, 'v) session \<Rightarrow> element list \<Rightarrow> ('db, 'v) outcome"
where
  "select_document L key s pg =
     (case map_of pdf_paths key of
        None \<Rightarrow> \<lparr>stop = Raised (KeyError key), state = s, page = pg, api_log = []\<rparr>
      | Some path \<Rightarrow>
          let s1 = s\<lparr>pdf_path := Some (Some path)\<rparr>;
              s2 = s1\<lparr>db := None\<rparr>
          in (case preload_data L path of
                (cs, Inl e) \<Rightarrow> \<lparr>stop = Raised e, state = s2, page = pg, api_log = cs\<rparr>
              | (cs, Inr d) \<Rightarrow>
                  \<lparr>stop = Rerun, state = s2\<lparr>db := Some d\<rparr>, page = pg, api_log = cs\<rparr>))"

text \<open>The two lines of the page for one entry of the chat history.\<close>

definition render_chat :: "('db, 'o, 'v) libraries \<Rightarrow> 'v chat \<Rightarrow> element list" where
  \<open>render_chat L chat =
     [Markdown (''<div class='chat-box'><span class='user-message'>'' @ question chat @
                ''</span></div>''),
      Markdown (''<div class='chat-box'><span class='bot-message'><strong>Bot:</strong> '' @
                py_str L (answer chat) @ ''</span></div>'')]\<close>

text \<open>The body of \<^verbatim>\<open>if st.button("Send") and question\<close>.\<close>

definition answer_question :: "('db, 'o, 'v) libraries \<Rightarrow> 'db \<Rightarrow> string \<Rightarrow> 'v io" where
  "answer_question L d q =
     bind_io (initialize_llm L) (\<lambda>llm.
     bind_io (create_prompt L) (\<lambda>prompt.
     bind_io (create_chains L llm prompt d) (\<lambda>retrieval_chain.
       process_question L retrieval_chain q)))"

definition send_question ::
  "('db, 'o, 'v) libraries \<Rightarrow> string \<Rightarrow> ('db, 'v) session \<Rightarrow> element list \<Rightarrow> ('db, 'v) outcome"
where
  "send_question L q s pg =
     (case db s of
        Some d \<Rightarrow>
          (case answer_question L d q of
             (cs, Inl e) \<Rightarrow> \<lparr>stop = Raised e, state = s, page = pg, api_log = cs\<rparr>
           | (cs, Inr a) \<Rightarrow>
               (case chat_history s of
                  None \<Rightarrow>
                    \<lparr>stop = Raised (AttributeError ''chat_history''), state = s, page = pg,
                     api_log = cs\<rparr>
                | Some h \<Rightarrow>
                    \<lparr>stop = Rerun,
                     state = s\<lparr>chat_history := Some (h @ [\<lparr>question = q, answer = a\<rparr>])\<rparr>,
                     page = pg, api_log = cs\<rparr>))
      | None \<Rightarrow>
          \<lparr>stop = Finished, state = s,
           page = pg @ [Warning ''Please select a category first.''], api_log = []\<rparr>)"

text \<open>The part of the script under \<^verbatim>\<open>if st.session_state.pdf_path is not None\<close>.\<close>

definition chat_section ::
  "('db, 'o, 'v) libraries \<Rightarrow> widgets \<Rightarrow> ('db, 'v) session \<Rightarrow> element list \<Rightarrow> ('db, 'v) outcome"
where
  "chat_section L w s pg =
     (let s1 = (if chat_history s = None then s\<lparr>chat_history := Some []\<rparr> else s);
          pg1 = pg @ concat (map (render_chat L)
                  (case chat_history s1 of None \<Rightarrow> [] | Some h \<Rightarrow> h));
          q = text_input w;
          pg2 = pg1 @ [Text_Input ''Enter your question:''];
          pg3 = pg2 @ [Button ''Send'']
      in if btn_send w \<and> q \<noteq> [] then send_question L q s1 pg3
         else \<lparr>stop = Finished, state = s1, page = pg3, api_log = []\<rparr>)"

text \<open>
  One run of the script, from the session state it finds and the values of the widgets.
  The first document button that is pressed ends the run, so the buttons after it are not
  rendered in that run.
\<close>

definition run_streamlit ::
  "('db, 'o, 'v) libraries \<Rightarrow> widgets \<Rightarrow> ('db, 'v) session \<Rightarrow> ('db, 'v) outcome"
where
  \<open>run_streamlit L w s0 =
     (let pg0 = [Title ''ENROLL EASE'', Markdown custom_styling,
                 Sidebar_Title ''Ask Queries Regarding:''];
          s = (if pdf_path s0 = None then s0\<lparr>pdf_path := Some None\<rparr> else s0);
          pg1 = pg0 @ [Sidebar_Markdown ''<div class='button-container'>''];
          pg2 = pg1 @ [Sidebar_Button ''About College'']
      in if btn_about_college w then select_document L ''college_info'' s pg2
         else let pg3 = pg2 @ [Sidebar_Button ''Admission Process'']
      in if btn_admission_process w then select_document L ''admission_process'' s pg3
         else let pg4 = pg3 @ [Sidebar_Button ''Cut-off'']
      in if btn_cut_off w then select_document L ''Cutoff'' s pg4
         else let pg5 = pg4 @ [Sidebar_Button ''Seat Allotment'']
      in if btn_seat_allotment w then select_document L ''seatsmatrix'' s pg5
         else let pg6 = pg5 @ [Sidebar_Button ''Fees Structure'']
      in if btn_fees_structure w then select_document L ''fees'' s pg6
         else let pg7 = pg6 @ [Sidebar_Markdown ''</div>'']
      in (case pdf_path s of
            Some (Some p) \<Rightarrow> chat_section L w s pg7
          | _ \<Rightarrow> \<lparr>stop = Finished, state = s, page = pg7, api_log = []\<rparr>))\<close>

subsection \<open>Executions\<close>

text \<open>
  The chat history as a list: an entry that is not in the session state holds no chat.
\<close>

definition history :: "('db, 'v) session \<Rightarrow> 'v chat list" where
  "history s = (case chat_history s of None \<Rightarrow> [] | Some h \<Rightarrow> h)"

text \<open>
  The key of the document button whose body runs: the first pressed one, in the order of
  the script.
\<close>

definition first_pressed :: "widgets \<Rightarrow> string option" where
  "first_pressed w =
     (if btn_about_college w then Some ''college_info''
      else if btn_admission_process w then Some ''admission_process''
      else if btn_cut_off w then Some ''Cutoff''
      else if btn_seat_allotment w then Some ''seatsmatrix''
      else if btn_fees_structure w then Some ''fees''
      else None)"

text \<open>
  The session state after the lines that initialise the selection: \<^verbatim>\<open>pdf_path\<close> is set
  to \<^verbatim>\<open>None\<close> when it is not in the session state.
\<close>

definition init_selection :: "('db, 'v) session \<Rightarrow> ('db, 'v) session" where
  "init_selection s0 = (if pdf_path s0 = None then s0\<lparr>pdf_path := Some None\<rparr> else s0)"

text \<open>
  A session is a sequence of runs of the script. Streamlit keeps the session state from
  one run to the next, whichever way the run ended; the widgets, and what the libraries
  answer, can differ in every run. \<open>run_all\<close> returns the last session state and the
  calls of all the runs, in order.
\<close>

fun run_all ::
  "(('db, 'o, 'v) libraries \<times> widgets) list \<Rightarrow> ('db, 'v) session \<Rightarrow> api_call list \<Rightarrow>
     ('db, 'v) session \<times> api_call list"
where
  "run_all [] s log = (s, log)"
| "run_all ((L, w) # steps) s log =
     run_all steps (state (run_streamlit L w s)) (log @ api_log (run_streamlit L w s))"

text \<open>
  The run that follows \<^verbatim>\<open>st.experimental_rerun()\<close>: the buttons are released, the
  text input keeps its value.
\<close>

definition released :: "widgets \<Rightarrow> widgets" where
  "released w =
     w\<lparr>btn_about_college := False, btn_admission_process := False, btn_cut_off := False,
       btn_seat_allotment := False, btn_fees_structure := False, btn_send := False\<rparr>"

subsection \<open>A concrete library and concrete widgets\<close>

text \<open>
  Libraries small enough to run: loading a PDF gives one document that holds the path,
  the splitter cuts every document to the chunk size, the index is the list of chunks,
  and the chain answers every question with the same sentence.
\<close>

definition toy_libraries :: "(document list, nat, string) libraries" where
  "toy_libraries =
     \<lparr>os_getenv = (\<lambda>name. Some ''gsk''),
      PyPDFLoader_load = (\<lambda>path. Inr [\<lparr>page_content = path, metadata = []\<rparr>]),
      RecursiveCharacterTextSplitter =
        (\<lambda>chunk_size chunk_overlap docs.
           Inr (map (\<lambda>d. d\<lparr>page_content := take chunk_size (page_content d)\<rparr>) docs)),
      OllamaEmbeddings = Inr 0,
      FAISS_from_documents = (\<lambda>documents embeddings. Inr documents),
      ChatGroq = (\<lambda>key model_name. Inr 1),
      from_template = (\<lambda>template. Inr 2),
      create_stuff_documents_chain = (\<lambda>llm prompt. Inr 3),
      as_retriever = (\<lambda>d. Inr 4),
      create_retrieval_chain = (\<lambda>retriever doc_chain. Inr 5),
      invoke = (\<lambda>chain input. Inr [''answer'' \<mapsto> ''Four years.'']),
      py_str = (\<lambda>v. v)\<rparr>"

text \<open>The same libraries with no PDF on the disk.\<close>

definition offline_libraries :: "(document list, nat, string) libraries" where
  "offline_libraries =
     toy_libraries\<lparr>PyPDFLoader_load := (\<lambda>path. Inl (LibraryError ''no such file''))\<rparr>"


definition no_click :: widgets where
  "no_click =
     \<lparr>btn_about_college = False, btn_admission_process = False, btn_cut_off = False,
      btn_seat_allotment = False, btn_fees_structure = False, btn_send = False,
      text_input = []\<rparr>"

definition click_fees :: widgets where
  "click_fees = no_click\<lparr>btn_fees_structure := True\<rparr>"

definition click_send :: widgets where
  "click_send = no_click\<lparr>btn_send := True, text_input := ''How long is the course?''\<rparr>"

section \<open>Properties\<close>

subsection \<open>What the pipeline functions and one run compute\<close>


lemma bind_io_Inl: "bind_io (cs, Inl e) f = (cs, Inl e)"
  by (simp add: bind_io_def)

lemma bind_io_Inr: "bind_io (cs, Inr x) f = (cs @ fst (f x), snd (f x))"
  by (simp add: bind_io_def split: prod.split)

lemma bind_io_call:
  "bind_io (call c r) f =
     (case r of Inl e \<Rightarrow> ([c], Inl e) | Inr x \<Rightarrow> (c # fst (f x), snd (f x)))"
  by (simp add: call_def bind_io_def split: sum.split prod.split)

lemma preload_data_cases:
  "preload_data L path =
     (case PyPDFLoader_load L path of
        Inl e \<Rightarrow> ([Call_PyPDFLoader_load path], Inl e)
      | Inr docs \<Rightarrow>
          (case RecursiveCharacterTextSplitter L 1000 200 docs of
             Inl e \<Rightarrow> ([Call_PyPDFLoader_load path, Call_split_documents 1000 200], Inl e)
           | Inr documents \<Rightarrow>
               (case OllamaEmbeddings L of
                  Inl e \<Rightarrow>
                    ([Call_PyPDFLoader_load path, Call_split_documents 1000 200,
                      Call_OllamaEmbeddings], Inl e)
                | Inr embeddings \<Rightarrow>
                    ([Call_PyPDFLoader_load path, Call_split_documents 1000 200,
                      Call_OllamaEmbeddings, Call_FAISS_from_documents],
                     FAISS_from_documents L documents embeddings))))"
  by (simp add: preload_data_def load_pdf_def split_documents_def initialize_embeddings_def
      bind_io_def call_def split: sum.split)

lemma answer_question_cases:
  "answer_question L d q =
     (case ChatGroq L (groq_api_key L) ''mixtral-8x7b-32768'' of
        Inl e \<Rightarrow> ([Call_ChatGroq (groq_api_key L) ''mixtral-8x7b-32768''], Inl e)
      | Inr llm \<Rightarrow>
     (case from_template L prompt_template of
        Inl e \<Rightarrow>
          ([Call_ChatGroq (groq_api_key L) ''mixtral-8x7b-32768'',
            Call_from_template prompt_template], Inl e)
      | Inr prompt \<Rightarrow>
     (case create_stuff_documents_chain L llm prompt of
        Inl e \<Rightarrow>
          ([Call_ChatGroq (groq_api_key L) ''mixtral-8x7b-32768'',
            Call_from_template prompt_template, Call_create_stuff_documents_chain], Inl e)
      | Inr doc_chain \<Rightarrow>
     (case as_retriever L d of
        Inl e \<Rightarrow>
          ([Call_ChatGroq (groq_api_key L) ''mixtral-8x7b-32768'',
            Call_from_template prompt_template, Call_create_stuff_documents_chain,
            Call_as_retriever], Inl e)
      | Inr retriever \<Rightarrow>
     (case create_retrieval_chain L retriever doc_chain of
        Inl e \<Rightarrow>
          ([Call_ChatGroq (groq_api_key L) ''mixtral-8x7b-32768'',
            Call_from_template prompt_template, Call_create_stuff_documents_chain,
            Call_as_retriever, Call_create_retrieval_chain], Inl e)
      | Inr retrieval_chain \<Rightarrow>
          ([Call_ChatGroq (groq_api_key L) ''mixtral-8x7b-32768'',
            Call_from_template prompt_template, Call_create_stuff_documents_chain,
            Call_as_retriever, Call_create_retrieval_chain,
            Call_invoke [(''input'', q)]],
           (case invoke L retrieval_chain [(''input'', q)] of
              Inl e \<Rightarrow> Inl e
            | Inr response \<Rightarrow>
                (case response ''answer'' of
                   None \<Rightarrow> Inl (KeyError ''answer'')
                 | Some a \<Rightarrow> Inr a))))))))"
  by (simp add: answer_question_def initialize_llm_def create_prompt_def create_chains_def
      process_question_def bind_io_def call_def return_io_def raise_io_def
      split: sum.split option.split)

lemma run_select:
  "first_pressed w = Some key \<Longrightarrow>
     \<exists>pg. run_streamlit L w s = select_document L key (init_selection s) pg \<and>
       (\<forall>t. Text_Input t \<notin> set pg) \<and> (\<forall>b. Button b \<notin> set pg)"
proof -
  assume k: "first_pressed w = Some key"
  consider (a) "btn_about_college w" "key = ''college_info''"
    | (b) "\<not> btn_about_college w" "btn_admission_process w" "key = ''admission_process''"
    | (c) "\<not> btn_about_college w" "\<not> btn_admission_process w" "btn_cut_off w"
          "key = ''Cutoff''"
    | (d) "\<not> btn_about_college w" "\<not> btn_admission_process w" "\<not> btn_cut_off w"
          "btn_seat_allotment w" "key = ''seatsmatrix''"
    | (e) "\<not> btn_about_college w" "\<not> btn_admission_process w" "\<not> btn_cut_off w"
          "\<not> btn_seat_allotment w" "btn_fees_structure w" "key = ''fees''"
    using k unfolding first_pressed_def by (metis option.inject option.distinct(1))
  then show ?thesis
  proof cases
    case a
    then show ?thesis
      by (simp add: run_streamlit_def Let_def init_selection_def[symmetric])
        (rule exI, rule conjI, rule refl, simp)
  next
    case b
    then show ?thesis
      by (simp add: run_streamlit_def Let_def init_selection_def[symmetric])
        (rule exI, rule conjI, rule refl, simp)
  next
    case c
    then show ?thesis
      by (simp add: run_streamlit_def Let_def init_selection_def[symmetric])
        (rule exI, rule conjI, rule refl, simp)
  next
    case d
    then show ?thesis
      by (simp add: run_streamlit_def Let_def init_selection_def[symmetric])
        (rule exI, rule conjI, rule refl, simp)
  next
    case e
    then show ?thesis
      by (simp add: run_streamlit_def Let_def init_selection_def[symmetric])
        (rule exI, rule conjI, rule refl, simp)
  qed
qed

lemma first_pressed_None:
  "first_pressed w = None \<longleftrightarrow>
     \<not> btn_about_college w \<and> \<not> btn_admission_process w \<and> \<not> btn_cut_off w \<and>
     \<not> btn_seat_allotment w \<and> \<not> btn_fees_structure w"
  by (simp add: first_pressed_def)

lemma run_chat:
  "first_pressed w = None \<Longrightarrow>
     \<exists>pg. run_streamlit L w s =
       (case pdf_path (init_selection s) of
          Some (Some p) \<Rightarrow> chat_section L w (init_selection s) pg
        | _ \<Rightarrow> \<lparr>stop = Finished, state = init_selection s, page = pg, api_log = []\<rparr>) \<and>
       (\<forall>t. Text_Input t \<notin> set pg) \<and> (\<forall>b. Button b \<notin> set pg)"
proof -
  assume n: "first_pressed w = None"
  define pg where
    \<open>pg = [Title ''ENROLL EASE'', Markdown custom_styling,
           Sidebar_Title ''Ask Queries Regarding:'',
           Sidebar_Markdown ''<div class='button-container'>'',
           Sidebar_Button ''About College'', Sidebar_Button ''Admission Process'',
           Sidebar_Button ''Cut-off'', Sidebar_Button ''Seat Allotment'',
           Sidebar_Button ''Fees Structure'', Sidebar_Markdown ''</div>'']\<close>
  have "run_streamlit L w s =
       (case pdf_path (init_selection s) of
          Some (Some p) \<Rightarrow> chat_section L w (init_selection s) pg
        | _ \<Rightarrow> \<lparr>stop = Finished, state = init_selection s, page = pg, api_log = []\<rparr>)"
    using n
    by (simp add: first_pressed_None run_streamlit_def Let_def init_selection_def[symmetric] pg_def
        split: option.split)
  moreover have "(\<forall>t. Text_Input t \<notin> set pg) \<and> (\<forall>b. Button b \<notin> set pg)"
    by (simp add: pg_def)
  ultimately show ?thesis by blast
qed

lemma first_pressed_key:
  "first_pressed w = Some key \<Longrightarrow> \<exists>path. map_of pdf_paths key = Some path"
  by (auto simp: first_pressed_def pdf_paths_def split: if_splits)


lemma init_chat:
  "(if chat_history s = None then s\<lparr>chat_history := Some []\<rparr> else s) =
     s\<lparr>chat_history := Some (history s)\<rparr>"
  by (cases s) (auto simp: history_def)

lemma chat_section_state:
  "state (chat_section L w s pg) =
     (if btn_send w \<and> text_input w \<noteq> [] then
        (case db s of
           None \<Rightarrow> s\<lparr>chat_history := Some (history s)\<rparr>
         | Some d \<Rightarrow>
             (case snd (answer_question L d (text_input w)) of
                Inl e \<Rightarrow> s\<lparr>chat_history := Some (history s)\<rparr>
              | Inr a \<Rightarrow>
                  s\<lparr>chat_history :=
                      Some (history s @ [\<lparr>question = text_input w, answer = a\<rparr>])\<rparr>))
      else s\<lparr>chat_history := Some (history s)\<rparr>)"
  unfolding chat_section_def Let_def init_chat send_question_def
  by (simp split: option.split prod.split sum.split)

lemma chat_section_stop:
  "stop (chat_section L w s pg) =
     (if btn_send w \<and> text_input w \<noteq> [] then
        (case db s of
           None \<Rightarrow> Finished
         | Some d \<Rightarrow>
             (case snd (answer_question L d (text_input w)) of
                Inl e \<Rightarrow> Raised e
              | Inr a \<Rightarrow> Rerun))
      else Finished)"
  unfolding chat_section_def Let_def init_chat send_question_def
  by (simp split: option.split prod.split sum.split)

lemma chat_section_api_log:
  "api_log (chat_section L w s pg) =
     (if btn_send w \<and> text_input w \<noteq> [] then
        (case db s of
           None \<Rightarrow> []
         | Some d \<Rightarrow> fst (answer_question L d (text_input w)))
      else [])"
  unfolding chat_section_def Let_def init_chat send_question_def
  by (simp split: option.split prod.split sum.split)

lemma chat_section_page:
  "page (chat_section L w s pg) =
     pg @ concat (map (render_chat L) (history s)) @
     [Text_Input ''Enter your question:'', Button ''Send''] @
     (if btn_send w \<and> text_input w \<noteq> [] \<and> db s = None
      then [Warning ''Please select a category first.''] else [])"
  unfolding chat_section_def Let_def init_chat send_question_def
  by (simp split: option.split prod.split sum.split)


lemma select_document_state:
  "map_of pdf_paths key = Some path \<Longrightarrow>
     state (select_document L key s pg) =
       s\<lparr>pdf_path := Some (Some path),
         db := (case snd (preload_data L path) of Inl e \<Rightarrow> None | Inr d \<Rightarrow> Some d)\<rparr>"
  by (simp add: select_document_def Let_def split: prod.split sum.split)

lemma select_document_stop:
  "map_of pdf_paths key = Some path \<Longrightarrow>
     stop (select_document L key s pg) =
       (case snd (preload_data L path) of Inl e \<Rightarrow> Raised e | Inr d \<Rightarrow> Rerun)"
  by (simp add: select_document_def Let_def split: prod.split sum.split)

lemma select_document_api_log:
  "map_of pdf_paths key = Some path \<Longrightarrow>
     api_log (select_document L key s pg) = fst (preload_data L path)"
  by (simp add: select_document_def Let_def split: prod.split sum.split)

lemma select_document_page:
  "map_of pdf_paths key = Some path \<Longrightarrow> page (select_document L key s pg) = pg"
  by (simp add: select_document_def Let_def split: prod.split sum.split)

lemma init_selection_fields:
  "db (init_selection s) = db s" "chat_history (init_selection s) = chat_history s"
  "history (init_selection s) = history s"
  "pdf_path (init_selection s) = (if pdf_path s = None then Some None else pdf_path s)"
  by (simp_all add: init_selection_def history_def)

subsection \<open>Selecting a document\<close>

text \<open>
  C5. In a run in which a document button is pressed, the path of the first pressed button
  is stored, and the \<^verbatim>\<open>db\<close> that the run leaves is the index that \<open>preload_data\<close>
  built from that path, or no entry at all when \<open>preload_data\<close> raised: the entry was
  popped before the index was built. The session state after the run is the same whatever
  \<^verbatim>\<open>db\<close> held before it.
\<close>

theorem select_replaces_index:
  assumes "first_pressed w = Some key"
  shows "\<exists>path. map_of pdf_paths key = Some path \<and>
           pdf_path (state (run_streamlit L w s)) = Some (Some path) \<and>
           db (state (run_streamlit L w s)) =
             (case snd (preload_data L path) of Inl e \<Rightarrow> None | Inr d \<Rightarrow> Some d) \<and>
           state (run_streamlit L w (s\<lparr>db := old\<rparr>)) = state (run_streamlit L w s)"
proof -
  obtain path where path: "map_of pdf_paths key = Some path"
    using first_pressed_key [OF assms] by blast
  obtain pg where r: "run_streamlit L w s = select_document L key (init_selection s) pg"
    using run_select [OF assms] by blast
  obtain pg' where r':
    "run_streamlit L w (s\<lparr>db := old\<rparr>) = select_document L key (init_selection (s\<lparr>db := old\<rparr>)) pg'"
    using run_select [OF assms] by blast
  have "state (run_streamlit L w (s\<lparr>db := old\<rparr>)) = state (run_streamlit L w s)"
    by (simp add: r r' select_document_state [OF path] init_selection_def)
  then show ?thesis
    using path by (simp add: r select_document_state [OF path])
qed


theorem select_replaces_index_witness:
  "first_pressed click_fees = Some ''fees'' \<and>
   pdf_path (state (run_streamlit toy_libraries click_fees
      \<lparr>pdf_path = Some (Some ''about_college.pdf''),
       db = Some [\<lparr>page_content = ''about_college.pdf'', metadata = []\<rparr>],
       chat_history = Some []\<rparr>)) = Some (Some ''feesstructure.pdf'') \<and>
   db (state (run_streamlit toy_libraries click_fees
      \<lparr>pdf_path = Some (Some ''about_college.pdf''),
       db = Some [\<lparr>page_content = ''about_college.pdf'', metadata = []\<rparr>],
       chat_history = Some []\<rparr>)) =
     Some [\<lparr>page_content = ''feesstructure.pdf'', metadata = []\<rparr>]"
proof -
  have fp: "first_pressed click_fees = Some ''fees''"
    by (simp add: first_pressed_def click_fees_def no_click_def)
  have path: "map_of pdf_paths ''fees'' = Some ''feesstructure.pdf''"
    by (simp add: pdf_paths_def)
  have built: "snd (preload_data toy_libraries ''feesstructure.pdf'') =
      Inr [\<lparr>page_content = ''feesstructure.pdf'', metadata = []\<rparr>]"
    by (simp add: preload_data_cases toy_libraries_def)
  show ?thesis
    using fp path built
      select_replaces_index [OF fp, of toy_libraries
        "\<lparr>pdf_path = Some (Some ''about_college.pdf''),
          db = Some [\<lparr>page_content = ''about_college.pdf'', metadata = []\<rparr>],
          chat_history = Some []\<rparr>" None]
    by auto
qed

text \<open>
  C3. A run in which a document button is pressed hands the path of that button to
  \<open>preload_data\<close>, which calls the libraries in one order: load the PDF at the path,
  split the loaded documents, create the embedding client, build the FAISS index. The calls
  it makes are always an initial segment of these four. When none of them raises, the
  index is built from exactly the chunks that the splitter returned for the documents
  loaded from the path, the run stores it as \<^verbatim>\<open>db\<close> and reruns, and a later run that
  answers a question builds its chain on this index.
\<close>

theorem preload_data_pipeline:
  fixes L L' :: "('db, 'o, 'v) libraries"
  assumes "first_pressed w = Some key" and "map_of pdf_paths key = Some path"
    and "PyPDFLoader_load L path = Inr docs"
    and "RecursiveCharacterTextSplitter L 1000 200 docs = Inr chunks"
    and "OllamaEmbeddings L = Inr embeddings"
    and "FAISS_from_documents L chunks embeddings = Inr index"
  shows "preload_data L path =
           ([Call_PyPDFLoader_load path, Call_split_documents 1000 200,
             Call_OllamaEmbeddings, Call_FAISS_from_documents], Inr index) \<and>
         api_log (run_streamlit L w s) =
           [Call_PyPDFLoader_load path, Call_split_documents 1000 200,
            Call_OllamaEmbeddings, Call_FAISS_from_documents] \<and>
         take (length (fst (preload_data L' path')))
           [Call_PyPDFLoader_load path', Call_split_documents 1000 200,
            Call_OllamaEmbeddings, Call_FAISS_from_documents] = fst (preload_data L' path') \<and>
         stop (run_streamlit L w s) = Rerun \<and>
         pdf_path (state (run_streamlit L w s)) = Some (Some path) \<and>
         db (state (run_streamlit L w s)) = Some index \<and>
         (\<forall>(L2 :: ('db, 'o, 'v) libraries) w2. first_pressed w2 = None \<and> btn_send w2 \<and> text_input w2 \<noteq> [] \<longrightarrow>
            api_log (run_streamlit L2 w2 (state (run_streamlit L w s))) =
              fst (answer_question L2 index (text_input w2)))"
proof -
  have pre: "preload_data L path =
           ([Call_PyPDFLoader_load path, Call_split_documents 1000 200,
             Call_OllamaEmbeddings, Call_FAISS_from_documents], Inr index)"
    using assms(3-6) by (simp add: preload_data_cases)
  obtain pg where r: "run_streamlit L w s = select_document L key (init_selection s) pg"
    using run_select [OF assms(1)] by blast
  have st: "state (run_streamlit L w s) =
      (init_selection s)\<lparr>pdf_path := Some (Some path), db := Some index\<rparr>"
    by (simp add: r select_document_state [OF assms(2)] pre)
  have later: "api_log (run_streamlit L2 w2 (state (run_streamlit L w s))) =
              fst (answer_question L2 index (text_input w2))"
    if w2: "first_pressed w2 = None" "btn_send w2" "text_input w2 \<noteq> []" for L2 :: "('db, 'o, 'v) libraries" and w2
  proof -
    obtain pg' where "run_streamlit L2 w2 (state (run_streamlit L w s)) =
       (case pdf_path (init_selection (state (run_streamlit L w s))) of
          Some (Some p) \<Rightarrow> chat_section L2 w2 (init_selection (state (run_streamlit L w s))) pg'
        | _ \<Rightarrow> \<lparr>stop = Finished, state = init_selection (state (run_streamlit L w s)),
                page = pg', api_log = []\<rparr>)"
      using run_chat [OF w2(1)] by blast
    then show ?thesis
      using w2 by (simp add: st init_selection_def chat_section_api_log)
  qed
  have log: "api_log (run_streamlit L w s) =
           [Call_PyPDFLoader_load path, Call_split_documents 1000 200,
            Call_OllamaEmbeddings, Call_FAISS_from_documents]"
    by (simp add: r select_document_api_log [OF assms(2)] pre)
  have seg: "take (length (fst (preload_data L' path')))
           [Call_PyPDFLoader_load path', Call_split_documents 1000 200,
            Call_OllamaEmbeddings, Call_FAISS_from_documents] = fst (preload_data L' path')"
    by (simp add: preload_data_cases split: sum.split)
  have stp: "stop (run_streamlit L w s) = Rerun"
    by (simp add: r select_document_stop [OF assms(2)] pre)
  have "pdf_path (state (run_streamlit L w s)) = Some (Some path)"
    and "db (state (run_streamlit L w s)) = Some index"
    by (simp_all add: st)
  with pre log seg stp later show ?thesis
    by blast
qed


theorem preload_data_pipeline_witness:
  "preload_data toy_libraries ''feesstructure.pdf'' =
     ([Call_PyPDFLoader_load ''feesstructure.pdf'', Call_split_documents 1000 200,
       Call_OllamaEmbeddings, Call_FAISS_from_documents],
      Inr [\<lparr>page_content = ''feesstructure.pdf'', metadata = []\<rparr>]) \<and>
   stop (run_streamlit toy_libraries click_fees empty_session) = Rerun \<and>
   db (state (run_streamlit toy_libraries click_fees empty_session)) =
     Some [\<lparr>page_content = ''feesstructure.pdf'', metadata = []\<rparr>] \<and>
   api_log (run_streamlit toy_libraries click_send
              (state (run_streamlit toy_libraries click_fees empty_session))) =
     [Call_ChatGroq (Some ''gsk'') ''mixtral-8x7b-32768'', Call_from_template prompt_template,
      Call_create_stuff_documents_chain, Call_as_retriever, Call_create_retrieval_chain,
      Call_invoke [(''input'', ''How long is the course?'')]]"
proof -
  have fp: "first_pressed click_fees = Some ''fees''"
    by (simp add: first_pressed_def click_fees_def no_click_def)
  have path: "map_of pdf_paths ''fees'' = Some ''feesstructure.pdf''"
    by (simp add: pdf_paths_def)
  have load: "PyPDFLoader_load toy_libraries ''feesstructure.pdf'' =
      Inr [\<lparr>page_content = ''feesstructure.pdf'', metadata = []\<rparr>]"
    by (simp add: toy_libraries_def)
  have split: "RecursiveCharacterTextSplitter toy_libraries 1000 200
      [\<lparr>page_content = ''feesstructure.pdf'', metadata = []\<rparr>] =
      Inr [\<lparr>page_content = ''feesstructure.pdf'', metadata = []\<rparr>]"
    by (simp add: toy_libraries_def)
  have emb: "OllamaEmbeddings toy_libraries = Inr 0"
    by (simp add: toy_libraries_def)
  have faiss: "FAISS_from_documents toy_libraries
      [\<lparr>page_content = ''feesstructure.pdf'', metadata = []\<rparr>] 0 =
      Inr [\<lparr>page_content = ''feesstructure.pdf'', metadata = []\<rparr>]"
    by (simp add: toy_libraries_def)
  have send: "first_pressed click_send = None \<and> btn_send click_send \<and>
      text_input click_send = ''How long is the course?''"
    by (simp add: first_pressed_def click_send_def no_click_def)
  have answer: "fst (answer_question toy_libraries
      [\<lparr>page_content = ''feesstructure.pdf'', metadata = []\<rparr>] ''How long is the course?'') =
     [Call_ChatGroq (Some ''gsk'') ''mixtral-8x7b-32768'', Call_from_template prompt_template,
      Call_create_stuff_documents_chain, Call_as_retriever, Call_create_retrieval_chain,
      Call_invoke [(''input'', ''How long is the course?'')]]"
    by (simp add: answer_question_cases toy_libraries_def groq_api_key_def)
  show ?thesis
    using send answer
      preload_data_pipeline [OF fp path load split emb faiss,
        where s = empty_session and L' = toy_libraries and path' = "''feesstructure.pdf''"]
    by auto
qed


subsection \<open>Asking a question\<close>

lemma run_question_flow:
  assumes "first_pressed w = None" and "pdf_path s = Some (Some p)"
  shows "\<exists>pg. run_streamlit L w s = chat_section L w s pg \<and>
           (\<forall>t. Text_Input t \<notin> set pg) \<and> (\<forall>b. Button b \<notin> set pg)"
proof -
  have "init_selection s = s"
    using assms(2) by (simp add: init_selection_def)
  then show ?thesis
    using run_chat [OF assms(1), of L s] assms(2) by auto
qed

text \<open>
  C8. In a run in which no document button is pressed, a document has been selected, Send
  is pressed with a non-empty question and the session state has no \<^verbatim>\<open>db\<close>, the script
  reaches its end, the last element it puts on the page is the warning, it makes no call
  of a library, and the session state is the one it found, with \<^verbatim>\<open>chat_history\<close>
  initialised to the empty list if it was not there: the chat, the path and \<^verbatim>\<open>db\<close> are
  unchanged.
\<close>

theorem send_without_index_warns:
  assumes "first_pressed w = None" and "pdf_path s = Some (Some p)" and "db s = None"
    and "btn_send w" and "text_input w \<noteq> []"
  shows "stop (run_streamlit L w s) = Finished \<and>
         last (page (run_streamlit L w s)) = Warning ''Please select a category first.'' \<and>
         api_log (run_streamlit L w s) = [] \<and>
         state (run_streamlit L w s) = s\<lparr>chat_history := Some (history s)\<rparr> \<and>
         history (state (run_streamlit L w s)) = history s \<and>
         pdf_path (state (run_streamlit L w s)) = pdf_path s \<and>
         db (state (run_streamlit L w s)) = None \<and>
         (chat_history s \<noteq> None \<longrightarrow> state (run_streamlit L w s) = s)"
proof -
  obtain pg where r: "run_streamlit L w s = chat_section L w s pg"
    using run_question_flow [OF assms(1,2)] by blast
  have st: "state (run_streamlit L w s) = s\<lparr>chat_history := Some (history s)\<rparr>"
    using assms(3-5) by (simp add: r chat_section_state)
  have same: "s\<lparr>chat_history := Some (history s)\<rparr> = s" if "chat_history s \<noteq> None"
    using that by (cases s) (auto simp: history_def)
  have "stop (run_streamlit L w s) = Finished"
    and "last (page (run_streamlit L w s)) = Warning ''Please select a category first.''"
    and "api_log (run_streamlit L w s) = []"
    using assms(3-5)
    by (simp_all add: r chat_section_stop chat_section_page chat_section_api_log)
  moreover have "history (state (run_streamlit L w s)) = history s"
    and "pdf_path (state (run_streamlit L w s)) = pdf_path s"
    and "db (state (run_streamlit L w s)) = None"
    using assms(3) by (simp_all add: st history_def)
  ultimately show ?thesis
    using st same by simp
qed

theorem send_without_index_warns_witness:
  "state (run_streamlit offline_libraries click_fees empty_session) =
     \<lparr>pdf_path = Some (Some ''feesstructure.pdf''), db = None, chat_history = None\<rparr> \<and>
   stop (run_streamlit toy_libraries click_send
     \<lparr>pdf_path = Some (Some ''feesstructure.pdf''), db = None, chat_history = None\<rparr>) =
     Finished \<and>
   last (page (run_streamlit toy_libraries click_send
     \<lparr>pdf_path = Some (Some ''feesstructure.pdf''), db = None, chat_history = None\<rparr>)) =
     Warning ''Please select a category first.'' \<and>
   api_log (run_streamlit toy_libraries click_send
     \<lparr>pdf_path = Some (Some ''feesstructure.pdf''), db = None, chat_history = None\<rparr>) = [] \<and>
   state (run_streamlit toy_libraries click_send
     \<lparr>pdf_path = Some (Some ''feesstructure.pdf''), db = None, chat_history = None\<rparr>) =
     \<lparr>pdf_path = Some (Some ''feesstructure.pdf''), db = None, chat_history = Some []\<rparr>"
proof -
  have fp: "first_pressed click_fees = Some ''fees''"
    by (simp add: first_pressed_def click_fees_def no_click_def)
  have path: "map_of pdf_paths ''fees'' = Some ''feesstructure.pdf''"
    by (simp add: pdf_paths_def)
  obtain pg where
    "run_streamlit offline_libraries click_fees (empty_session :: (document list, string) session) =
       select_document offline_libraries ''fees'' (init_selection empty_session) pg"
    using run_select [OF fp] by blast
  then have failed: "state (run_streamlit offline_libraries click_fees empty_session) =
     \<lparr>pdf_path = Some (Some ''feesstructure.pdf''), db = None, chat_history = None\<rparr>"
    by (simp add: select_document_state [OF path] preload_data_cases offline_libraries_def
        toy_libraries_def init_selection_def empty_session_def)
  have none: "first_pressed click_send = None"
    by (simp add: first_pressed_def click_send_def no_click_def)
  have send: "btn_send click_send" and q: "text_input click_send \<noteq> []"
    by (simp_all add: click_send_def no_click_def)
  show ?thesis
    using failed
      send_without_index_warns [OF none _ _ send q, of
        "\<lparr>pdf_path = Some (Some ''feesstructure.pdf''), db = None, chat_history = None\<rparr>"
        "''feesstructure.pdf''" toy_libraries]
    by (simp add: history_def)
qed


text \<open>
  C1. In a run that answers a question (no document button pressed, a document selected,
  an index stored, Send pressed, a non-empty question) the script builds the chat model,
  the prompt, the document chain over both, the retriever of the stored index and the
  retrieval chain over retriever and document chain, and invokes that chain with the
  question under the key \<^verbatim>\<open>input\<close>. When no call raises and the response has an
  \<^verbatim>\<open>answer\<close>, \<open>process_question\<close> returns exactly that value, the run appends the
  question with that answer to the chat history and reruns, and the run after the rerun
  puts the question and the answer on the page.
\<close>

theorem question_answered_by_chain:
  fixes L L' :: "('db, 'o, 'v) libraries"
  assumes "first_pressed w = None" and "pdf_path s = Some (Some p)" and "db s = Some d"
    and "btn_send w" and "text_input w = q" and "q \<noteq> []"
    and "ChatGroq L (groq_api_key L) ''mixtral-8x7b-32768'' = Inr llm"
    and "from_template L prompt_template = Inr prompt"
    and "create_stuff_documents_chain L llm prompt = Inr doc_chain"
    and "as_retriever L d = Inr retriever"
    and "create_retrieval_chain L retriever doc_chain = Inr retrieval_chain"
    and "invoke L retrieval_chain [(''input'', q)] = Inr response"
    and "response ''answer'' = Some a"
  shows "create_chains L llm prompt d =
           ([Call_create_stuff_documents_chain, Call_as_retriever,
             Call_create_retrieval_chain], Inr retrieval_chain) \<and>
         process_question L retrieval_chain q = ([Call_invoke [(''input'', q)]], Inr a) \<and>
         api_log (run_streamlit L w s) =
           [Call_ChatGroq (groq_api_key L) ''mixtral-8x7b-32768'',
            Call_from_template prompt_template, Call_create_stuff_documents_chain,
            Call_as_retriever, Call_create_retrieval_chain, Call_invoke [(''input'', q)]] \<and>
         stop (run_streamlit L w s) = Rerun \<and>
         state (run_streamlit L w s) =
           s\<lparr>chat_history := Some (history s @ [\<lparr>question = q, answer = a\<rparr>])\<rparr> \<and>
         set (render_chat L' \<lparr>question = q, answer = a\<rparr>) \<subseteq>
           set (page (run_streamlit L' (released w) (state (run_streamlit L w s))))"
proof -
  have chains: "create_chains L llm prompt d =
           ([Call_create_stuff_documents_chain, Call_as_retriever,
             Call_create_retrieval_chain], Inr retrieval_chain)"
    using assms(9-11) by (simp add: create_chains_def bind_io_def call_def)
  have pq: "process_question L retrieval_chain q = ([Call_invoke [(''input'', q)]], Inr a)"
    using assms(12,13) by (simp add: process_question_def bind_io_def call_def return_io_def)
  have aq: "answer_question L d q =
           ([Call_ChatGroq (groq_api_key L) ''mixtral-8x7b-32768'',
            Call_from_template prompt_template, Call_create_stuff_documents_chain,
            Call_as_retriever, Call_create_retrieval_chain, Call_invoke [(''input'', q)]],
            Inr a)"
    using assms(7-13) by (simp add: answer_question_cases)
  obtain pg where r: "run_streamlit L w s = chat_section L w s pg"
    using run_question_flow [OF assms(1,2)] by blast
  have log: "api_log (run_streamlit L w s) =
           [Call_ChatGroq (groq_api_key L) ''mixtral-8x7b-32768'',
            Call_from_template prompt_template, Call_create_stuff_documents_chain,
            Call_as_retriever, Call_create_retrieval_chain, Call_invoke [(''input'', q)]]"
    using assms(3-6) by (simp add: r chat_section_api_log aq)
  have stp: "stop (run_streamlit L w s) = Rerun"
    using assms(3-6) by (simp add: r chat_section_stop aq)
  have st: "state (run_streamlit L w s) =
           s\<lparr>chat_history := Some (history s @ [\<lparr>question = q, answer = a\<rparr>])\<rparr>"
    using assms(3-6) by (simp add: r chat_section_state aq)
  have rel: "first_pressed (released w) = None"
    by (simp add: first_pressed_def released_def)
  have sel: "pdf_path (state (run_streamlit L w s)) = Some (Some p)"
    using assms(2) by (simp add: st)
  obtain pg' where r': "run_streamlit L' (released w) (state (run_streamlit L w s)) =
      chat_section L' (released w) (state (run_streamlit L w s)) pg'"
    using run_question_flow [OF rel sel] by blast
  have shown: "set (render_chat L' \<lparr>question = q, answer = a\<rparr>) \<subseteq>
           set (page (run_streamlit L' (released w) (state (run_streamlit L w s))))"
    unfolding r' chat_section_page by (auto simp: st history_def)
  from chains pq log stp st shown show ?thesis
    by blast
qed


theorem question_answered_by_chain_witness:
  \<open>state (run_streamlit toy_libraries click_send
      \<lparr>pdf_path = Some (Some ''feesstructure.pdf''),
       db = Some [\<lparr>page_content = ''feesstructure.pdf'', metadata = []\<rparr>],
       chat_history = Some []\<rparr>) =
     \<lparr>pdf_path = Some (Some ''feesstructure.pdf''),
      db = Some [\<lparr>page_content = ''feesstructure.pdf'', metadata = []\<rparr>],
      chat_history =
        Some [\<lparr>question = ''How long is the course?'', answer = ''Four years.''\<rparr>]\<rparr> \<and>
   Markdown ''<div class='chat-box'><span class='bot-message'><strong>Bot:</strong> Four years.</span></div>''
     \<in> set (page (run_streamlit toy_libraries (released click_send)
          (state (run_streamlit toy_libraries click_send
             \<lparr>pdf_path = Some (Some ''feesstructure.pdf''),
              db = Some [\<lparr>page_content = ''feesstructure.pdf'', metadata = []\<rparr>],
              chat_history = Some []\<rparr>))))\<close>
proof -
  have none: "first_pressed click_send = None"
    by (simp add: first_pressed_def click_send_def no_click_def)
  have send: "btn_send click_send"
    and q: "text_input click_send = ''How long is the course?''"
    by (simp_all add: click_send_def no_click_def)
  have groq: "ChatGroq toy_libraries (groq_api_key toy_libraries) ''mixtral-8x7b-32768'' = Inr 1"
    and tmpl: "from_template toy_libraries prompt_template = Inr 2"
    and stuff: "create_stuff_documents_chain toy_libraries 1 2 = Inr 3"
    and retr: "as_retriever toy_libraries
        [\<lparr>page_content = ''feesstructure.pdf'', metadata = []\<rparr>] = Inr 4"
    and chain: "create_retrieval_chain toy_libraries 4 3 = Inr 5"
    and resp: "invoke toy_libraries 5 [(''input'', ''How long is the course?'')] =
        Inr [''answer'' \<mapsto> ''Four years.'']"
    by (simp_all add: toy_libraries_def)
  have ans: "[''answer'' \<mapsto> ''Four years.''] ''answer'' = Some ''Four years.''"
    by simp
  have render: \<open>render_chat toy_libraries
      \<lparr>question = ''How long is the course?'', answer = ''Four years.''\<rparr> =
     [Markdown ''<div class='chat-box'><span class='user-message'>How long is the course?</span></div>'',
      Markdown ''<div class='chat-box'><span class='bot-message'><strong>Bot:</strong> Four years.</span></div>'']\<close>
    by (simp add: render_chat_def toy_libraries_def)
  let ?s = "\<lparr>pdf_path = Some (Some ''feesstructure.pdf''),
          db = Some [\<lparr>page_content = ''feesstructure.pdf'', metadata = []\<rparr>],
          chat_history = Some []\<rparr> :: (document list, string) session"
  have sel: "pdf_path ?s = Some (Some ''feesstructure.pdf'')"
    and idx: "db ?s = Some [\<lparr>page_content = ''feesstructure.pdf'', metadata = []\<rparr>]"
    and nonempty: "''How long is the course?'' \<noteq> []"
    by simp_all
  note run = question_answered_by_chain
      [OF none sel idx send q nonempty groq tmpl stuff retr chain resp ans,
        where L' = toy_libraries]
  have "state (run_streamlit toy_libraries click_send ?s) =
      ?s\<lparr>chat_history := Some (history ?s @
         [\<lparr>question = ''How long is the course?'', answer = ''Four years.''\<rparr>])\<rparr>"
    using run by blast
  then have st: "state (run_streamlit toy_libraries click_send ?s) =
     \<lparr>pdf_path = Some (Some ''feesstructure.pdf''),
      db = Some [\<lparr>page_content = ''feesstructure.pdf'', metadata = []\<rparr>],
      chat_history =
        Some [\<lparr>question = ''How long is the course?'', answer = ''Four years.''\<rparr>]\<rparr>"
    by (simp add: history_def)
  have "set (render_chat toy_libraries
           \<lparr>question = ''How long is the course?'', answer = ''Four years.''\<rparr>) \<subseteq>
     set (page (run_streamlit toy_libraries (released click_send)
          (state (run_streamlit toy_libraries click_send ?s))))"
    using run by blast
  then have shown: \<open>Markdown ''<div class='chat-box'><span class='bot-message'><strong>Bot:</strong> Four years.</span></div>''
     \<in> set (page (run_streamlit toy_libraries (released click_send)
          (state (run_streamlit toy_libraries click_send ?s))))\<close>
    unfolding render by simp
  from st shown show ?thesis
    by (rule conjI)
qed

text \<open>
  C9. Every run leaves the chat history it found as the initial part of the chat history,
  with at most one entry after it. A run in which no document button is pressed leaves
  \<^verbatim>\<open>db\<close> as it found it, and \<^verbatim>\<open>pdf_path\<close> too once it is in the session state. When
  such a run sends a non-empty question with a document selected and an index stored, and
  the chain returns an answer, the run appends exactly one entry to the end of the chat
  history, the question with that answer, and reruns. Conversely such a run that ends in a
  rerun has appended the answer that the chain returned, and one that ends in another way
  leaves the chat history as it was.
\<close>

theorem chat_history_append_only:
  "(\<exists>ys. history (state (run_streamlit L w s)) = history s @ ys \<and> length ys \<le> 1) \<and>
   (first_pressed w = None \<longrightarrow>
      db (state (run_streamlit L w s)) = db s \<and>
      (pdf_path s \<noteq> None \<longrightarrow> pdf_path (state (run_streamlit L w s)) = pdf_path s)) \<and>
   (first_pressed w = None \<and> pdf_path s = Some (Some p) \<and> btn_send w \<and> text_input w \<noteq> [] \<and>
    db s = Some d \<and> snd (answer_question L d (text_input w)) = Inr a \<longrightarrow>
      stop (run_streamlit L w s) = Rerun \<and>
      chat_history (state (run_streamlit L w s)) =
        Some (history s @ [\<lparr>question = text_input w, answer = a\<rparr>])) \<and>
   (first_pressed w = None \<and> stop (run_streamlit L w s) = Rerun \<longrightarrow>
      (\<exists>d a. db s = Some d \<and> snd (answer_question L d (text_input w)) = Inr a \<and>
         history (state (run_streamlit L w s)) =
           history s @ [\<lparr>question = text_input w, answer = a\<rparr>])) \<and>
   (first_pressed w = None \<and> stop (run_streamlit L w s) \<noteq> Rerun \<longrightarrow>
      history (state (run_streamlit L w s)) = history s)"
proof -
  have forward: "stop (run_streamlit L w s) = Rerun \<and>
      chat_history (state (run_streamlit L w s)) =
        Some (history s @ [\<lparr>question = text_input w, answer = a\<rparr>])"
    if none: "first_pressed w = None" and sel: "pdf_path s = Some (Some p)"
      and sent: "btn_send w" "text_input w \<noteq> []" "db s = Some d"
        "snd (answer_question L d (text_input w)) = Inr a"
  proof -
    obtain pg where r: "run_streamlit L w s = chat_section L w s pg"
      using run_question_flow [OF none sel] by blast
    show ?thesis
      using sent by (simp add: r chat_section_stop chat_section_state)
  qed
  have rest: "(\<exists>ys. history (state (run_streamlit L w s)) = history s @ ys \<and> length ys \<le> 1) \<and>
   (first_pressed w = None \<longrightarrow>
      db (state (run_streamlit L w s)) = db s \<and>
      (pdf_path s \<noteq> None \<longrightarrow> pdf_path (state (run_streamlit L w s)) = pdf_path s)) \<and>
   (first_pressed w = None \<and> stop (run_streamlit L w s) = Rerun \<longrightarrow>
      (\<exists>d a. db s = Some d \<and> snd (answer_question L d (text_input w)) = Inr a \<and>
         history (state (run_streamlit L w s)) =
           history s @ [\<lparr>question = text_input w, answer = a\<rparr>])) \<and>
   (first_pressed w = None \<and> stop (run_streamlit L w s) \<noteq> Rerun \<longrightarrow>
      history (state (run_streamlit L w s)) = history s)"
  proof (cases "first_pressed w")
    case (Some key)
    obtain path where path: "map_of pdf_paths key = Some path"
      using first_pressed_key [OF Some] by blast
    obtain pg where r: "run_streamlit L w s = select_document L key (init_selection s) pg"
      using run_select [OF Some] by blast
    have "history (state (run_streamlit L w s)) = history s"
      by (simp add: r select_document_state [OF path] history_def init_selection_def)
    then show ?thesis
      using Some by simp
  next
    case None
    obtain pg where r: "run_streamlit L w s =
         (case pdf_path (init_selection s) of
            Some (Some p) \<Rightarrow> chat_section L w (init_selection s) pg
          | _ \<Rightarrow> \<lparr>stop = Finished, state = init_selection s, page = pg, api_log = []\<rparr>)"
      using run_chat [OF None] by blast
    show ?thesis
    proof (cases "\<exists>p. pdf_path (init_selection s) = Some (Some p)")
      case False
      then have r': "run_streamlit L w s =
          \<lparr>stop = Finished, state = init_selection s, page = pg, api_log = []\<rparr>"
        using r by (auto split: option.splits)
      show ?thesis
        using None by (simp add: r' init_selection_fields)
    next
      case True
      then obtain p where p: "pdf_path (init_selection s) = Some (Some p)"
        by blast
      have r': "run_streamlit L w s = chat_section L w (init_selection s) pg"
        using r p by simp
      show ?thesis
        using None
        by (auto simp: r' chat_section_state chat_section_stop init_selection_fields history_def
            split: option.splits sum.splits)
    qed
  qed
  from forward rest show ?thesis
    by blast
qed

theorem chat_history_append_only_witness:
  "stop (run_streamlit toy_libraries click_send
      \<lparr>pdf_path = Some (Some ''feesstructure.pdf''),
       db = Some [\<lparr>page_content = ''feesstructure.pdf'', metadata = []\<rparr>],
       chat_history = Some [\<lparr>question = ''Is there a hostel?'', answer = ''Yes.''\<rparr>]\<rparr>) =
     Rerun \<and>
   chat_history (state (run_streamlit toy_libraries click_send
      \<lparr>pdf_path = Some (Some ''feesstructure.pdf''),
       db = Some [\<lparr>page_content = ''feesstructure.pdf'', metadata = []\<rparr>],
       chat_history = Some [\<lparr>question = ''Is there a hostel?'', answer = ''Yes.''\<rparr>]\<rparr>)) =
     Some [\<lparr>question = ''Is there a hostel?'', answer = ''Yes.''\<rparr>,
           \<lparr>question = ''How long is the course?'', answer = ''Four years.''\<rparr>] \<and>
   pdf_path (state (run_streamlit toy_libraries click_send
      \<lparr>pdf_path = Some (Some ''feesstructure.pdf''),
       db = Some [\<lparr>page_content = ''feesstructure.pdf'', metadata = []\<rparr>],
       chat_history = Some [\<lparr>question = ''Is there a hostel?'', answer = ''Yes.''\<rparr>]\<rparr>)) =
     Some (Some ''feesstructure.pdf'') \<and>
   db (state (run_streamlit toy_libraries click_send
      \<lparr>pdf_path = Some (Some ''feesstructure.pdf''),
       db = Some [\<lparr>page_content = ''feesstructure.pdf'', metadata = []\<rparr>],
       chat_history = Some [\<lparr>question = ''Is there a hostel?'', answer = ''Yes.''\<rparr>]\<rparr>)) =
     Some [\<lparr>page_content = ''feesstructure.pdf'', metadata = []\<rparr>]"
proof -
  let ?s = "\<lparr>pdf_path = Some (Some ''feesstructure.pdf''),
       db = Some [\<lparr>page_content = ''feesstructure.pdf'', metadata = []\<rparr>],
       chat_history = Some [\<lparr>question = ''Is there a hostel?'', answer = ''Yes.''\<rparr>]\<rparr>
       :: (document list, string) session"
  have none: "first_pressed click_send = None"
    by (simp add: first_pressed_def click_send_def no_click_def)
  have q: "text_input click_send = ''How long is the course?''" and send: "btn_send click_send"
    by (simp_all add: click_send_def no_click_def)
  have nonempty: "text_input click_send \<noteq> []"
    by (simp add: q)
  have sel: "pdf_path ?s = Some (Some ''feesstructure.pdf'')"
    and idx: "db ?s = Some [\<lparr>page_content = ''feesstructure.pdf'', metadata = []\<rparr>]"
    by simp_all
  have answer: "snd (answer_question toy_libraries
      [\<lparr>page_content = ''feesstructure.pdf'', metadata = []\<rparr>] (text_input click_send)) =
      Inr ''Four years.''"
    by (simp add: answer_question_cases toy_libraries_def q)
  note grows = chat_history_append_only [of toy_libraries click_send ?s
      "''feesstructure.pdf''" "[\<lparr>page_content = ''feesstructure.pdf'', metadata = []\<rparr>]"
      "''Four years.''"]
  from grows none sel send nonempty idx answer
  have "stop (run_streamlit toy_libraries click_send ?s) = Rerun"
    and "chat_history (state (run_streamlit toy_libraries click_send ?s)) =
      Some (history ?s @ [\<lparr>question = text_input click_send, answer = ''Four years.''\<rparr>])"
    by blast+
  moreover from grows none
  have "db (state (run_streamlit toy_libraries click_send ?s)) = db ?s"
    and "pdf_path (state (run_streamlit toy_libraries click_send ?s)) = pdf_path ?s"
    by simp_all
  ultimately show ?thesis
    by (simp add: q history_def)
qed

subsection \<open>Which documents can be selected\<close>

lemma preload_data_calls:
  "Call_PyPDFLoader_load path \<in> set (fst (preload_data L path))"
  "Call_invoke x \<notin> set (fst (preload_data L path))"
  by (simp_all add: preload_data_cases split: sum.split)

lemma run_without_selection:
  assumes "first_pressed w = None"
  shows "pdf_path (state (run_streamlit L w s)) = pdf_path (init_selection s)"
    and "db (state (run_streamlit L w s)) = db s"
proof -
  obtain pg where r: "run_streamlit L w s =
       (case pdf_path (init_selection s) of
          Some (Some p) \<Rightarrow> chat_section L w (init_selection s) pg
        | _ \<Rightarrow> \<lparr>stop = Finished, state = init_selection s, page = pg, api_log = []\<rparr>)"
    using run_chat [OF assms] by blast
  show "pdf_path (state (run_streamlit L w s)) = pdf_path (init_selection s)"
    unfolding r
    by (simp add: chat_section_state split: option.split sum.split)
  show "db (state (run_streamlit L w s)) = db s"
    unfolding r
    by (simp add: chat_section_state init_selection_fields split: option.split sum.split)
qed

lemma run_with_selection:
  assumes "first_pressed w = Some key"
  shows "\<exists>path. map_of pdf_paths key = Some path \<and>
           pdf_path (state (run_streamlit L w s)) = Some (Some path) \<and>
           api_log (run_streamlit L w s) = fst (preload_data L path) \<and>
           (\<forall>t. Text_Input t \<notin> set (page (run_streamlit L w s))) \<and>
           (\<forall>b. Button b \<notin> set (page (run_streamlit L w s)))"
proof -
  obtain path where path: "map_of pdf_paths key = Some path"
    using first_pressed_key [OF assms] by blast
  obtain pg where r: "run_streamlit L w s = select_document L key (init_selection s) pg"
    and pg: "\<forall>t. Text_Input t \<notin> set pg" "\<forall>b. Button b \<notin> set pg"
    using run_select [OF assms] by blast
  show ?thesis
    using path pg
    by (simp add: r select_document_state [OF path] select_document_api_log [OF path]
        select_document_page [OF path])
qed

lemma valid_selection_step:
  assumes "pdf_path s \<in>
      insert None (insert (Some None) ((\<lambda>p. Some (Some p)) ` set (map snd pdf_paths)))"
  shows "pdf_path (state (run_streamlit L w s)) \<in>
      insert None (insert (Some None) ((\<lambda>p. Some (Some p)) ` set (map snd pdf_paths)))"
proof (cases "first_pressed w")
  case None
  show ?thesis
    using assms by (auto simp: run_without_selection(1) [OF None] init_selection_def)
next
  case (Some key)
  obtain path where "map_of pdf_paths key = Some path"
    and "pdf_path (state (run_streamlit L w s)) = Some (Some path)"
    using run_with_selection [OF Some] by blast
  moreover from this have "path \<in> set (map snd pdf_paths)"
    by (auto dest: map_of_SomeD intro: rev_image_eqI)
  ultimately show ?thesis
    by simp
qed

lemma valid_selection_run_all:
  "pdf_path s \<in>
      insert None (insert (Some None) ((\<lambda>p. Some (Some p)) ` set (map snd pdf_paths))) \<Longrightarrow>
   pdf_path (fst (run_all steps s log)) \<in>
      insert None (insert (Some None) ((\<lambda>p. Some (Some p)) ` set (map snd pdf_paths)))"
proof (induction steps arbitrary: s log)
  case Nil
  then show ?case by simp
next
  case (Cons step steps)
  obtain L w where step: "step = (L, w)"
    by (cases step)
  show ?case
    unfolding step run_all.simps
    by (rule Cons.IH) (rule valid_selection_step [OF Cons.prems])
qed

lemma button_selects:
  assumes "first_pressed w = Some key" and "map_of pdf_paths key = Some path"
  shows "pdf_path (state (run_streamlit L w s)) = Some (Some path)"
  using run_with_selection [OF assms(1), of L s] assms(2) by auto

text \<open>
  C4. The paths in \<open>pdf_paths\<close> are five. In every session, after any sequence of runs
  from the empty session state, \<^verbatim>\<open>pdf_path\<close> is not in the session state (before the
  first run), or is \<^verbatim>\<open>None\<close>, or is one of the five paths. Each of the five is the
  path that its button selects: About College, Seat Allotment, Admission Process, Cut-off
  and Fees Structure, in the order of \<open>pdf_paths\<close>.
\<close>

theorem selectable_documents_fixed:
  fixes L :: "('db, 'o, 'v) libraries"
    and steps :: "(('db, 'o, 'v) libraries \<times> widgets) list"
  shows
  "map snd pdf_paths =
     [''about_college.pdf'', ''seatsmatrix.pdf'', ''admissionprocess.pdf'', ''cuttoffs.pdf'',
      ''feesstructure.pdf''] \<and>
   pdf_path (fst (run_all steps empty_session [])) \<in>
     insert None (insert (Some None) ((\<lambda>p. Some (Some p)) ` set (map snd pdf_paths))) \<and>
   pdf_path (state (run_streamlit L (no_click\<lparr>btn_about_college := True\<rparr>) s)) =
     Some (Some ''about_college.pdf'') \<and>
   pdf_path (state (run_streamlit L (no_click\<lparr>btn_seat_allotment := True\<rparr>) s)) =
     Some (Some ''seatsmatrix.pdf'') \<and>
   pdf_path (state (run_streamlit L (no_click\<lparr>btn_admission_process := True\<rparr>) s)) =
     Some (Some ''admissionprocess.pdf'') \<and>
   pdf_path (state (run_streamlit L (no_click\<lparr>btn_cut_off := True\<rparr>) s)) =
     Some (Some ''cuttoffs.pdf'') \<and>
   pdf_path (state (run_streamlit L (no_click\<lparr>btn_fees_structure := True\<rparr>) s)) =
     Some (Some ''feesstructure.pdf'')"
proof -
  have five: "map snd pdf_paths =
     [''about_college.pdf'', ''seatsmatrix.pdf'', ''admissionprocess.pdf'', ''cuttoffs.pdf'',
      ''feesstructure.pdf'']"
    by (simp add: pdf_paths_def)
  have inv: "pdf_path (fst (run_all steps empty_session [])) \<in>
     insert None (insert (Some None) ((\<lambda>p. Some (Some p)) ` set (map snd pdf_paths)))"
    by (rule valid_selection_run_all) (simp add: empty_session_def)
  have a: "pdf_path (state (run_streamlit L (no_click\<lparr>btn_about_college := True\<rparr>) s)) =
     Some (Some ''about_college.pdf'')"
    by (rule button_selects [where key = "''college_info''"])
      (simp_all add: first_pressed_def no_click_def pdf_paths_def)
  have b: "pdf_path (state (run_streamlit L (no_click\<lparr>btn_seat_allotment := True\<rparr>) s)) =
     Some (Some ''seatsmatrix.pdf'')"
    by (rule button_selects [where key = "''seatsmatrix''"])
      (simp_all add: first_pressed_def no_click_def pdf_paths_def)
  have c: "pdf_path (state (run_streamlit L (no_click\<lparr>btn_admission_process := True\<rparr>) s)) =
     Some (Some ''admissionprocess.pdf'')"
    by (rule button_selects [where key = "''admission_process''"])
      (simp_all add: first_pressed_def no_click_def pdf_paths_def)
  have d: "pdf_path (state (run_streamlit L (no_click\<lparr>btn_cut_off := True\<rparr>) s)) =
     Some (Some ''cuttoffs.pdf'')"
    by (rule button_selects [where key = "''Cutoff''"])
      (simp_all add: first_pressed_def no_click_def pdf_paths_def)
  have e: "pdf_path (state (run_streamlit L (no_click\<lparr>btn_fees_structure := True\<rparr>) s)) =
     Some (Some ''feesstructure.pdf'')"
    by (rule button_selects [where key = "''fees''"])
      (simp_all add: first_pressed_def no_click_def pdf_paths_def)
  from five inv a b c d e show ?thesis
    by blast
qed


theorem selectable_documents_fixed_witness:
  "pdf_path (fst (run_all [(toy_libraries, click_fees), (toy_libraries, click_send)]
      empty_session [])) = Some (Some ''feesstructure.pdf'') \<and>
   pdf_path (state (run_streamlit toy_libraries (no_click\<lparr>btn_cut_off := True\<rparr>)
      (empty_session :: (document list, string) session))) = Some (Some ''cuttoffs.pdf'')"
proof -
  note fixed = selectable_documents_fixed [of
      "[(toy_libraries, click_fees), (toy_libraries, click_send)]" toy_libraries empty_session]
  have fees: "first_pressed click_fees = Some ''fees''"
    and send: "first_pressed click_send = None"
    by (simp_all add: first_pressed_def click_fees_def click_send_def no_click_def)
  have path: "map_of pdf_paths ''fees'' = Some ''feesstructure.pdf''"
    by (simp add: pdf_paths_def)
  have "pdf_path (fst (run_all [(toy_libraries, click_fees), (toy_libraries, click_send)]
      empty_session [])) = Some (Some ''feesstructure.pdf'')"
    by (simp add: run_without_selection(1) [OF send] init_selection_def
        button_selects [OF fees path])
  with fixed show ?thesis
    by blast
qed

subsection \<open>No question before a selection\<close>

lemma run_invoke_needs_selection:
  assumes "Text_Input t \<in> set (page (run_streamlit L w s)) \<or>
           Button b \<in> set (page (run_streamlit L w s)) \<or>
           Call_invoke x \<in> set (api_log (run_streamlit L w s))"
  shows "first_pressed w = None \<and> (\<exists>p. pdf_path s = Some (Some p))"
proof (cases "first_pressed w")
  case (Some key)
  obtain path where "api_log (run_streamlit L w s) = fst (preload_data L path)"
    and "\<forall>t. Text_Input t \<notin> set (page (run_streamlit L w s))"
    and "\<forall>b. Button b \<notin> set (page (run_streamlit L w s))"
    using run_with_selection [OF Some, of L s] by blast
  with assms have False
    by (simp add: preload_data_calls(2))
  then show ?thesis ..
next
  case None
  obtain pg where r: "run_streamlit L w s =
       (case pdf_path (init_selection s) of
          Some (Some p) \<Rightarrow> chat_section L w (init_selection s) pg
        | _ \<Rightarrow> \<lparr>stop = Finished, state = init_selection s, page = pg, api_log = []\<rparr>)"
    and pg: "\<forall>t. Text_Input t \<notin> set pg" "\<forall>b. Button b \<notin> set pg"
    using run_chat [OF None] by blast
  have "\<exists>p. pdf_path (init_selection s) = Some (Some p)"
  proof (rule ccontr)
    assume "\<not> ?thesis"
    then have "run_streamlit L w s =
        \<lparr>stop = Finished, state = init_selection s, page = pg, api_log = []\<rparr>"
      using r by (auto split: option.splits)
    then show False
      using assms pg by simp
  qed
  then have "\<exists>p. pdf_path s = Some (Some p)"
    by (auto simp: init_selection_def split: if_splits)
  with None show ?thesis
    by simp
qed

lemma run_invoke_needs_index:
  assumes "Call_invoke x \<in> set (api_log (run_streamlit L w s))"
  shows "db s \<noteq> None"
proof -
  from assms have none: "first_pressed w = None" and "\<exists>p. pdf_path s = Some (Some p)"
    using run_invoke_needs_selection [of _ L w s _ x] by blast+
  then obtain p where p: "pdf_path s = Some (Some p)"
    by blast
  obtain pg where "run_streamlit L w s = chat_section L w s pg"
    using run_question_flow [OF none p] by blast
  with assms have called: "Call_invoke x \<in> set (api_log (chat_section L w s pg))"
    by simp
  show ?thesis
  proof
    assume "db s = None"
    then have "api_log (chat_section L w s pg) = []"
      by (simp add: chat_section_api_log)
    with called show False
      by simp
  qed
qed

text \<open>
  The invariant of a session: a path that is selected is one of the fixed paths and its
  PDF has been loaded, and every invocation of the chain in the log comes after the
  loading of a fixed path.
\<close>

lemma selection_logged_step:
  assumes sel: "\<forall>p. pdf_path s = Some (Some p) \<longrightarrow>
        p \<in> set (map snd pdf_paths) \<and> Call_PyPDFLoader_load p \<in> set log"
    and ord: "\<forall>pre x post. log = pre @ Call_invoke x # post \<longrightarrow>
        (\<exists>p \<in> set (map snd pdf_paths). Call_PyPDFLoader_load p \<in> set pre)"
  shows "(\<forall>p. pdf_path (state (run_streamlit L w s)) = Some (Some p) \<longrightarrow>
            p \<in> set (map snd pdf_paths) \<and>
            Call_PyPDFLoader_load p \<in> set (log @ api_log (run_streamlit L w s))) \<and>
         (\<forall>pre x post. log @ api_log (run_streamlit L w s) = pre @ Call_invoke x # post \<longrightarrow>
            (\<exists>p \<in> set (map snd pdf_paths). Call_PyPDFLoader_load p \<in> set pre))"
proof (intro conjI allI impI)
  fix p
  assume p: "pdf_path (state (run_streamlit L w s)) = Some (Some p)"
  show "p \<in> set (map snd pdf_paths)"
  proof (cases "first_pressed w")
    case None
    with p have "pdf_path s = Some (Some p)"
      by (auto simp: run_without_selection(1) init_selection_def split: if_splits)
    with sel show ?thesis by blast
  next
    case (Some key)
    then obtain path where "map_of pdf_paths key = Some path"
      and "pdf_path (state (run_streamlit L w s)) = Some (Some path)"
      using run_with_selection [OF Some] by blast
    with p show ?thesis
      by (auto dest: map_of_SomeD intro: rev_image_eqI)
  qed
  show "Call_PyPDFLoader_load p \<in> set (log @ api_log (run_streamlit L w s))"
  proof (cases "first_pressed w")
    case None
    with p have "pdf_path s = Some (Some p)"
      by (auto simp: run_without_selection(1) init_selection_def split: if_splits)
    with sel show ?thesis by simp
  next
    case (Some key)
    then obtain path where "pdf_path (state (run_streamlit L w s)) = Some (Some path)"
      and "api_log (run_streamlit L w s) = fst (preload_data L path)"
      using run_with_selection [OF Some] by blast
    with p show ?thesis
      by (simp add: preload_data_calls(1))
  qed
next
  fix pre x post
  assume eq: "log @ api_log (run_streamlit L w s) = pre @ Call_invoke x # post"
  then consider us where "log = pre @ Call_invoke x # us"
    | us where "pre = log @ us" "api_log (run_streamlit L w s) = us @ Call_invoke x # post"
    by (auto simp: append_eq_append_conv2 append_eq_Cons_conv)
  then show "\<exists>p \<in> set (map snd pdf_paths). Call_PyPDFLoader_load p \<in> set pre"
  proof cases
    case 1
    with ord show ?thesis by blast
  next
    case 2
    then have "Call_invoke x \<in> set (api_log (run_streamlit L w s))"
      by simp
    then obtain p where "pdf_path s = Some (Some p)"
      using run_invoke_needs_selection [of _ L w s _ x] by blast
    with sel have "p \<in> set (map snd pdf_paths)" "Call_PyPDFLoader_load p \<in> set log"
      by blast+
    with 2(1) show ?thesis
      by auto
  qed
qed

lemma selection_logged_run_all:
  assumes "\<forall>p. pdf_path s = Some (Some p) \<longrightarrow>
        p \<in> set (map snd pdf_paths) \<and> Call_PyPDFLoader_load p \<in> set log"
    and "\<forall>pre x post. log = pre @ Call_invoke x # post \<longrightarrow>
        (\<exists>p \<in> set (map snd pdf_paths). Call_PyPDFLoader_load p \<in> set pre)"
  shows "\<forall>pre x post. snd (run_all steps s log) = pre @ Call_invoke x # post \<longrightarrow>
        (\<exists>p \<in> set (map snd pdf_paths). Call_PyPDFLoader_load p \<in> set pre)"
  using assms
proof (induction steps arbitrary: s log)
  case Nil
  then show ?case by simp
next
  case (Cons step steps)
  obtain L w where step: "step = (L, w)"
    by (cases step)
  note after = selection_logged_step [OF Cons.prems, of L w]
  show ?case
    unfolding step run_all.simps
    by (rule Cons.IH) (use after in blast)+
qed

text \<open>
  C6. A run puts the question input or the Send button on the page, or invokes the
  retrieval chain, only when no document button is pressed in it and the session state it
  finds holds a selected path; it invokes the chain only when the session state also holds
  an index. In every session, each invocation of the chain in the log of calls comes after
  the loading of one of the fixed PDFs, which only the body of a document button does.
\<close>

theorem question_needs_selection:
  fixes L :: "('db, 'o, 'v) libraries"
    and steps :: "(('db, 'o, 'v) libraries \<times> widgets) list"
  shows
  "(Text_Input t \<in> set (page (run_streamlit L w s)) \<or>
    Button b \<in> set (page (run_streamlit L w s)) \<or>
    Call_invoke x \<in> set (api_log (run_streamlit L w s)) \<longrightarrow>
      first_pressed w = None \<and> (\<exists>p. pdf_path s = Some (Some p))) \<and>
   (Call_invoke x \<in> set (api_log (run_streamlit L w s)) \<longrightarrow> db s \<noteq> None) \<and>
   (\<forall>pre y post. snd (run_all steps empty_session []) = pre @ Call_invoke y # post \<longrightarrow>
      (\<exists>p \<in> set (map snd pdf_paths). Call_PyPDFLoader_load p \<in> set pre))"
proof -
  have "\<forall>pre y post. snd (run_all steps empty_session []) = pre @ Call_invoke y # post \<longrightarrow>
      (\<exists>p \<in> set (map snd pdf_paths). Call_PyPDFLoader_load p \<in> set pre)"
    by (rule selection_logged_run_all) (simp_all add: empty_session_def)
  then show ?thesis
    using run_invoke_needs_selection [of t L w s b x] run_invoke_needs_index [of x L w s]
    by blast
qed


theorem question_needs_selection_witness:
  "snd (run_all [(toy_libraries, click_fees), (toy_libraries, click_send)] empty_session []) =
     [Call_PyPDFLoader_load ''feesstructure.pdf'', Call_split_documents 1000 200,
      Call_OllamaEmbeddings, Call_FAISS_from_documents,
      Call_ChatGroq (Some ''gsk'') ''mixtral-8x7b-32768'', Call_from_template prompt_template,
      Call_create_stuff_documents_chain, Call_as_retriever, Call_create_retrieval_chain] @
     Call_invoke [(''input'', ''How long is the course?'')] # [] \<and>
   (\<exists>p. p \<in> set (map snd pdf_paths) \<and>
      Call_PyPDFLoader_load p \<in> set
        [Call_PyPDFLoader_load ''feesstructure.pdf'', Call_split_documents 1000 200,
         Call_OllamaEmbeddings, Call_FAISS_from_documents,
         Call_ChatGroq (Some ''gsk'') ''mixtral-8x7b-32768'', Call_from_template prompt_template,
         Call_create_stuff_documents_chain, Call_as_retriever, Call_create_retrieval_chain])"
proof -
  have log: "snd (run_all [(toy_libraries, click_fees), (toy_libraries, click_send)]
      empty_session []) =
     [Call_PyPDFLoader_load ''feesstructure.pdf'', Call_split_documents 1000 200,
      Call_OllamaEmbeddings, Call_FAISS_from_documents,
      Call_ChatGroq (Some ''gsk'') ''mixtral-8x7b-32768'', Call_from_template prompt_template,
      Call_create_stuff_documents_chain, Call_as_retriever, Call_create_retrieval_chain] @
     Call_invoke [(''input'', ''How long is the course?'')] # []"
    by (simp add: run_streamlit_def Let_def click_fees_def click_send_def no_click_def
        select_document_def pdf_paths_def preload_data_cases toy_libraries_def
        empty_session_def chat_section_def send_question_def answer_question_cases
        groq_api_key_def)
  show ?thesis
    using log
      question_needs_selection [where steps =
        "[(toy_libraries, click_fees), (toy_libraries, click_send)]"]
    by blast
qed


subsection \<open>Chunking\<close>






subsection \<open>The prompt\<close>

text \<open>
  \<open>create_prompt\<close> takes no question: it hands one fixed template to
  \<^verbatim>\<open>ChatPromptTemplate.from_template\<close>, and every run that answers a question, whatever
  the question and the index, makes that call with that template right after it has
  built the chat model. The template holds the sentence about the pdf, the sentence to
  say when the model does not know the answer, and the \<^verbatim>\<open><context>\<close> block followed by
  the question.
\<close>

lemma prompt_template_sent:
  \<open>create_prompt L = ([Call_from_template prompt_template], from_template L prompt_template) \<and>
   (ChatGroq L (groq_api_key L) ''mixtral-8x7b-32768'' = Inr llm \<longrightarrow>
      take 2 (fst (answer_question L d q)) =
        [Call_ChatGroq (groq_api_key L) ''mixtral-8x7b-32768'',
         Call_from_template prompt_template]) \<and>
   sublist ''Get the information from the pdf and provide correct and precise answers.''
     prompt_template \<and>
   sublist ''If you don't know the answer then say "I am sorry you might have to contact the college for more info on this XXXXX"''
     prompt_template \<and>
   sublist ''<context>\<newline>    {context}\<newline>    </context>\<newline>    Question: {input}''
     prompt_template\<close>
proof -
  have "create_prompt L =
      ([Call_from_template prompt_template], from_template L prompt_template)"
    by (simp add: create_prompt_def call_def)
  moreover have "take 2 (fst (answer_question L d q)) =
        [Call_ChatGroq (groq_api_key L) ''mixtral-8x7b-32768'',
         Call_from_template prompt_template]"
    if "ChatGroq L (groq_api_key L) ''mixtral-8x7b-32768'' = Inr llm"
    using that by (simp add: answer_question_cases split: sum.split)
  moreover have
    \<open>sublist ''Get the information from the pdf and provide correct and precise answers.''
       prompt_template\<close>
    \<open>sublist ''If you don't know the answer then say "I am sorry you might have to contact the college for more info on this XXXXX"''
       prompt_template\<close>
    \<open>sublist ''<context>\<newline>    {context}\<newline>    </context>\<newline>    Question: {input}''
       prompt_template\<close>
    by (simp_all add: prompt_template_def sublist_code)
  ultimately show ?thesis
    by blast
qed

end
